theory Spec2Isabelle
  imports Complex_Main "HOL-Library.Sublist"
begin

section \<open>The persistent store (database.js)\<close>

text \<open>
  The SQLite schema of \<^verbatim>\<open>Database.init\<close> as records, one per table, the columns
  under their SQL names with a table prefix (\<open>sl_\<close> for \<^verbatim>\<open>slots\<close>, \<open>bk_\<close> for
  \<^verbatim>\<open>bookings\<close>, \<open>sv_\<close> for \<^verbatim>\<open>servers\<close>). A BOOLEAN column holds the integers
  0 and 1, as SQLite stores it and as \<^verbatim>\<open>getServerStatus\<close> reads it
  (\<^verbatim>\<open>server.is_leader === 1\<close>). A table is the list of its rows in insertion order.
  The \<^verbatim>\<open>doctors\<close> table is not modelled: no operation below reads it, and SQLite
  does not enforce the FOREIGN KEY clauses unless asked to, which the code never does.
\<close>

datatype sql_error = SQLITE_CONSTRAINT_NOTNULL | SQLITE_CONSTRAINT_UNIQUE | SQLITE_IOERR

record slot_row =
  sl_id :: int
  sl_doctor_id :: int
  sl_slot_time :: string
  sl_is_available :: int

record booking_row =
  bk_id :: int
  bk_doctor_id :: int
  bk_patient_name :: string
  bk_slot_time :: string
  bk_confirmation_id :: string
  bk_booking_timestamp :: int
  bk_server_id :: int

record server_row =
  sv_id :: int
  sv_name :: string
  sv_port :: int
  sv_connections :: int
  sv_is_leader :: int
  sv_last_heartbeat :: int
  sv_status :: string

text \<open>
  \<open>bookings_seq\<close> is the AUTOINCREMENT counter of the bookings table (the largest
  row id ever handed out).
\<close>

record database =
  slots :: "slot_row list"
  bookings :: "booking_row list"
  bookings_seq :: int
  servers_tbl :: "server_row list"

text \<open>
  \<^verbatim>\<open>bookSlot\<close>: one UPDATE guarded by \<^verbatim>\<open>is_available = 1\<close>; it resolves to
  \<^verbatim>\<open>this.changes > 0\<close>. A parameter taken from a request body may be absent
  (\<open>None\<close>, bound as NULL), and then no row compares equal to it.
\<close>

definition slot_hit :: "int option \<Rightarrow> string option \<Rightarrow> slot_row \<Rightarrow> bool" where
  "slot_hit doctorId slotTime r \<longleftrightarrow>
     Some (sl_doctor_id r) = doctorId \<and> Some (sl_slot_time r) = slotTime \<and> sl_is_available r = 1"

definition bookSlot :: "int option \<Rightarrow> string option \<Rightarrow> database \<Rightarrow> bool \<times> database" where
  "bookSlot doctorId slotTime db =
     (let changes = length (filter (slot_hit doctorId slotTime) (slots db))
      in (changes > 0,
          db\<lparr>slots := map (\<lambda>r. if slot_hit doctorId slotTime r then r\<lparr>sl_is_available := 0\<rparr> else r)
                           (slots db)\<rparr>))"

text \<open>
  \<^verbatim>\<open>createBooking\<close>: one INSERT, stamped with the inserting node's own
  \<^verbatim>\<open>Date.now()\<close> (the parameter \<open>now\<close>). The schema declares every column
  NOT NULL and \<^verbatim>\<open>confirmation_id\<close> UNIQUE, so the INSERT fails, leaving the table
  as it was, when a value is absent or the confirmation id is already stored; the
  promise then rejects with that error. Otherwise it resolves to the new row id and
  the timestamp.
\<close>

definition createBooking ::
  "int \<Rightarrow> int option \<Rightarrow> string option \<Rightarrow> string option \<Rightarrow> string option \<Rightarrow> int option \<Rightarrow>
   database \<Rightarrow> (sql_error + int \<times> int) \<times> database" where
  "createBooking now doctorId patientName slotTime confirmationId serverId db =
     (if doctorId = None \<or> patientName = None \<or> slotTime = None \<or> confirmationId = None
         \<or> serverId = None
      then (Inl SQLITE_CONSTRAINT_NOTNULL, db)
      else if the confirmationId \<in> set (map bk_confirmation_id (bookings db))
      then (Inl SQLITE_CONSTRAINT_UNIQUE, db)
      else
        (let lastID = bookings_seq db + 1
         in (Inr (lastID, now),
             db\<lparr>bookings := bookings db @
                    [\<lparr>bk_id = lastID, bk_doctor_id = the doctorId,
                      bk_patient_name = the patientName, bk_slot_time = the slotTime,
                      bk_confirmation_id = the confirmationId, bk_booking_timestamp = now,
                      bk_server_id = the serverId\<rparr>],
                 bookings_seq := lastID\<rparr>)))"

text \<open>\<^verbatim>\<open>getAllServers\<close>: SELECT * FROM servers.\<close>

definition getAllServers :: "database \<Rightarrow> server_row list" where
  "getAllServers db = servers_tbl db"

text \<open>
  The statements on the \<^verbatim>\<open>servers\<close> table violate no constraint, so whether one fails
  is up to the driver (a locked or unreadable file). Each takes the \<^verbatim>\<open>err\<close> its
  callback receives as a parameter: \<open>None\<close> for \<^verbatim>\<open>null\<close>. A failed statement
  changes nothing.

  \<^verbatim>\<open>updateServerStatus\<close> resolves to the number of rows changed.
\<close>

definition updateServerStatus ::
  "sql_error option \<Rightarrow> int \<Rightarrow> int \<Rightarrow> int \<Rightarrow> bool \<Rightarrow> string \<Rightarrow> database \<Rightarrow>
   (sql_error + nat) \<times> database" where
  "updateServerStatus err now serverId connections isLeader status db =
     (case err of
        Some e \<Rightarrow> (Inl e, db)
      | None \<Rightarrow>
          (Inr (length (filter (\<lambda>r. sv_id r = serverId) (servers_tbl db))),
           db\<lparr>servers_tbl :=
                map (\<lambda>r. if sv_id r = serverId
                          then r\<lparr>sv_connections := connections,
                                 sv_is_leader := (if isLeader then 1 else 0),
                                 sv_last_heartbeat := now, sv_status := status\<rparr>
                          else r)
                    (servers_tbl db)\<rparr>))"

definition updateServerHeartbeat ::
  "sql_error option \<Rightarrow> int \<Rightarrow> int \<Rightarrow> database \<Rightarrow> (sql_error + nat) \<times> database" where
  "updateServerHeartbeat err now serverId db =
     (case err of
        Some e \<Rightarrow> (Inl e, db)
      | None \<Rightarrow>
          (Inr (length (filter (\<lambda>r. sv_id r = serverId) (servers_tbl db))),
           db\<lparr>servers_tbl :=
                map (\<lambda>r. if sv_id r = serverId then r\<lparr>sv_last_heartbeat := now\<rparr> else r)
                    (servers_tbl db)\<rparr>))"

text \<open>
  \<^verbatim>\<open>setLeader\<close>: two statements, the second issued from the callback of the first.
  \<open>err1\<close> and \<open>err2\<close> are the errors the two callbacks receive. When the first
  statement fails the promise rejects and the second is never issued; when the second
  fails the first has already cleared every flag.
\<close>

definition clear_leaders :: "server_row list \<Rightarrow> server_row list" where
  "clear_leaders tbl = map (\<lambda>r. r\<lparr>sv_is_leader := 0\<rparr>) tbl"

definition mark_leader :: "int \<Rightarrow> server_row list \<Rightarrow> server_row list" where
  "mark_leader serverId tbl =
     map (\<lambda>r. if sv_id r = serverId then r\<lparr>sv_is_leader := 1\<rparr> else r) tbl"

definition setLeader ::
  "sql_error option \<Rightarrow> sql_error option \<Rightarrow> int \<Rightarrow> database \<Rightarrow> (sql_error + nat) \<times> database" where
  "setLeader err1 err2 serverId db =
     (case err1 of
        Some e \<Rightarrow> (Inl e, db)
      | None \<Rightarrow>
          (let db1 = db\<lparr>servers_tbl := clear_leaders (servers_tbl db)\<rparr>
           in case err2 of
                Some e \<Rightarrow> (Inl e, db1)
              | None \<Rightarrow>
                  (Inr (length (filter (\<lambda>r. sv_id r = serverId) (servers_tbl db1))),
                   db1\<lparr>servers_tbl := mark_leader serverId (servers_tbl db1)\<rparr>)))"

text \<open>The rows of the servers table whose leader flag is set.\<close>

definition stored_leaders :: "database \<Rightarrow> server_row list" where
  "stored_leaders db = filter (\<lambda>r. sv_is_leader r \<noteq> 0) (servers_tbl db)"

text \<open>The seeded servers table (seed.js), with the seeding time \<open>t\<close>.\<close>

definition seeded_servers :: "int \<Rightarrow> server_row list" where
  "seeded_servers t =
     [\<lparr>sv_id = 1, sv_name = ''Server-Mumbai'', sv_port = 5001, sv_connections = 0,
       sv_is_leader = 1, sv_last_heartbeat = t, sv_status = ''active''\<rparr>,
      \<lparr>sv_id = 2, sv_name = ''Server-Delhi'', sv_port = 5002, sv_connections = 0,
       sv_is_leader = 0, sv_last_heartbeat = t, sv_status = ''active''\<rparr>,
      \<lparr>sv_id = 3, sv_name = ''Server-Bangalore'', sv_port = 5003, sv_connections = 0,
       sv_is_leader = 0, sv_last_heartbeat = t, sv_status = ''active''\<rparr>]"

definition seeded_db :: "int \<Rightarrow> database" where
  "seeded_db t = \<lparr>slots = [], bookings = [], bookings_seq = 0, servers_tbl = seeded_servers t\<rparr>"

section \<open>The node and its directory (distributedManager.js)\<close>

text \<open>
  An entry of \<^verbatim>\<open>this.servers\<close> (fields \<^verbatim>\<open>id\<close>, \<^verbatim>\<open>name\<close>, \<^verbatim>\<open>port\<close>) and the
  fields of a \<^verbatim>\<open>DistributedManager\<close>. A JavaScript number that may be fractional
  (the clock offset and what is computed from it) is a \<open>real\<close>: the arithmetic is
  exact here, where an IEEE double would round beyond 53 bits. \<^verbatim>\<open>Date.now()\<close>
  returns integer milliseconds; every reading of it is a parameter of the function that
  takes it, in the order the source reads the clock.
\<close>

record server =
  s_id :: int
  s_name :: string
  s_port :: int

record manager =
  serverId :: int
  port :: int
  servers :: "server list"
  isLeader :: bool
  connections :: int
  clockOffset :: real
  lastHeartbeat :: int

definition cluster_servers :: "server list" where
  "cluster_servers =
     [\<lparr>s_id = 1, s_name = ''Server-Mumbai'', s_port = 5001\<rparr>,
      \<lparr>s_id = 2, s_name = ''Server-Delhi'', s_port = 5002\<rparr>,
      \<lparr>s_id = 3, s_name = ''Server-Bangalore'', s_port = 5003\<rparr>]"

text \<open>The constructor, called at time \<open>now\<close>.\<close>

definition new_manager :: "int \<Rightarrow> int \<Rightarrow> int \<Rightarrow> manager" where
  "new_manager sid p now =
     \<lparr>serverId = sid, port = p, servers = cluster_servers, isLeader = False,
      connections = 0, clockOffset = 0, lastHeartbeat = now\<rparr>"

text \<open>
  The two filters of the directory the methods below compute into their local constants
  \<^verbatim>\<open>otherServers\<close> and \<^verbatim>\<open>higherServers\<close>.
\<close>

definition otherServers :: "manager \<Rightarrow> server list" where
  "otherServers m = filter (\<lambda>s. s_id s \<noteq> serverId m) (servers m)"

definition higherServers :: "manager \<Rightarrow> server list" where
  "higherServers m = filter (\<lambda>s. s_id s > serverId m) (servers m)"

text \<open>
  What an \<^verbatim>\<open>axios\<close> call settles with: the response data for a 2xx answer, an
  exception for a timeout, a refused connection or any other status.
\<close>

datatype http_error = ETIMEDOUT | ECONNREFUSED | BadStatus nat

datatype 'a http_result = Resolved 'a | Rejected http_error

subsection \<open>Clock synchronisation\<close>

record sync_result =
  adjustedTime :: real
  rtt :: real
  serverTime :: real
  sr_clockOffset :: real

text \<open>
  \<^verbatim>\<open>performClockSync\<close> reads the clock twice, \<open>now1\<close> for \<^verbatim>\<open>serverTime\<close> and
  \<open>now2\<close> for \<^verbatim>\<open>t1\<close>, on two consecutive lines of the responder. It changes no
  field of the manager.
\<close>

definition performClockSync :: "manager \<Rightarrow> int \<Rightarrow> int \<Rightarrow> real \<Rightarrow> sync_result" where
  "performClockSync m now1 now2 clientTime =
     (let t0 = clientTime;
          server_time = real_of_int now1 + clockOffset m;
          t1 = real_of_int now2 + clockOffset m;
          round_trip = t1 - t0;
          adjusted = server_time + round_trip / 2
      in \<lparr>adjustedTime = adjusted, rtt = round_trip, serverTime = server_time,
          sr_clockOffset = clockOffset m\<rparr>)"

text \<open>
  \<^verbatim>\<open>syncWithLeader\<close>. \<open>net\<close> is the GET to \<^verbatim>\<open>/api/clock-sync\<close> of the chosen
  server with \<^verbatim>\<open>clientTime = startTime\<close>; \<open>startTime\<close>, \<open>endTime\<close> and \<open>now3\<close>
  are the three clock readings. Every exception lands in the \<^verbatim>\<open>catch\<close>, which only
  logs.
\<close>

definition syncWithLeader ::
  "(server \<Rightarrow> int \<Rightarrow> sync_result http_result) \<Rightarrow> int \<Rightarrow> int \<Rightarrow> int \<Rightarrow> manager \<Rightarrow> manager" where
  "syncWithLeader net startTime endTime now3 m =
     (if isLeader m then m
      else case find (\<lambda>s. s_id s \<noteq> serverId m) (servers m) of
             None \<Rightarrow> m
           | Some leader \<Rightarrow>
               (case net leader startTime of
                  Rejected e \<Rightarrow> m
                | Resolved response \<Rightarrow>
                    (let round_trip = real_of_int (endTime - startTime);
                         server_time = serverTime response;
                         adjusted = server_time + round_trip / 2
                     in m\<lparr>clockOffset := adjusted - real_of_int now3\<rparr>)))"

text \<open>
  A run of calls of \<^verbatim>\<open>performClockSync\<close> with one \<^verbatim>\<open>clientTime\<close> on one manager,
  one pair of clock readings per call.
\<close>

definition sync_sequence :: "manager \<Rightarrow> real \<Rightarrow> (int \<times> int) list \<Rightarrow> sync_result list" where
  "sync_sequence m clientTime readings =
     map (\<lambda>(now1, now2). performClockSync m now1 now2 clientTime) readings"

subsection \<open>Status report\<close>

record status_entry =
  st_id :: int
  st_name :: string
  st_port :: int
  st_connections :: int
  st_isLeader :: bool
  st_lastHeartbeat :: int
  st_status :: string
  st_clockOffset :: real

definition getServerStatus :: "manager \<Rightarrow> database \<Rightarrow> status_entry list" where
  "getServerStatus m db =
     map (\<lambda>server.
            \<lparr>st_id = sv_id server, st_name = sv_name server, st_port = sv_port server,
             st_connections =
               (if sv_id server = serverId m then connections m else sv_connections server),
             st_isLeader = (sv_is_leader server = 1),
             st_lastHeartbeat = sv_last_heartbeat server,
             st_status = sv_status server,
             st_clockOffset = (if sv_id server = serverId m then clockOffset m else 0)\<rparr>)
         (getAllServers db)"

subsection \<open>Leader election\<close>

text \<open>
  The requests a node sends during an election, in the order it sends them: the port
  addressed, the id in the body (\<^verbatim>\<open>candidateId\<close>, \<^verbatim>\<open>newLeaderId\<close>) and the
  \<^verbatim>\<open>timeout\<close> option in milliseconds. The \<^verbatim>\<open>timestamp\<close> field of both bodies is
  left out: no receiver reads it.
\<close>

datatype outbound = ElectionPost int int nat | LeaderUpdatePost int int nat

text \<open>
  The data of a 2xx answer to an election post, as far as the initiator reads it
  (\<^verbatim>\<open>response.data.success\<close>, a missing field counting as false).
\<close>

record election_response =
  er_success :: bool

text \<open>
  What the surroundings do during one election: how each server's endpoints answer,
  the \<^verbatim>\<open>err\<close> of each statement \<^verbatim>\<open>becomeLeader\<close> runs on the store, and the
  clock reading of \<^verbatim>\<open>updateServerStatus\<close>.
\<close>

record election_env =
  election_net :: "server \<Rightarrow> election_response http_result"
  leader_update_net :: "server \<Rightarrow> unit http_result"
  err_clear :: "sql_error option"
  err_mark :: "sql_error option"
  err_status :: "sql_error option"
  status_now :: int

text \<open>
  \<^verbatim>\<open>notifyServersOfNewLeader\<close>: one post per other server, one after the other; an
  exception is caught and logged and the loop goes on.
\<close>

fun notify_loop :: "(server \<Rightarrow> unit http_result) \<Rightarrow> int \<Rightarrow> server list \<Rightarrow> outbound list" where
  "notify_loop net sid [] = []"
| "notify_loop net sid (s # ss) =
     (case net s of
        Resolved u \<Rightarrow> LeaderUpdatePost (s_port s) sid 1000 # notify_loop net sid ss
      | Rejected e \<Rightarrow> LeaderUpdatePost (s_port s) sid 1000 # notify_loop net sid ss)"

definition notifyServersOfNewLeader :: "election_env \<Rightarrow> manager \<Rightarrow> outbound list" where
  "notifyServersOfNewLeader env m =
     notify_loop (leader_update_net env) (serverId m) (otherServers m)"

text \<open>
  \<^verbatim>\<open>becomeLeader\<close> sets the flag in memory first; a statement that fails afterwards
  rejects the promise (\<open>Inl\<close>) and skips what follows it.
\<close>

definition becomeLeader ::
  "election_env \<Rightarrow> manager \<Rightarrow> database \<Rightarrow> (sql_error + unit) \<times> manager \<times> database \<times> outbound list" where
  "becomeLeader env m db =
     (let m1 = m\<lparr>isLeader := True\<rparr>
      in case setLeader (err_clear env) (err_mark env) (serverId m1) db of
           (Inl e, db1) \<Rightarrow> (Inl e, m1, db1, [])
         | (Inr n, db1) \<Rightarrow>
             (case updateServerStatus (err_status env) (status_now env) (serverId m1)
                     (connections m1) True ''active'' db1 of
                (Inl e, db2) \<Rightarrow> (Inl e, m1, db2, [])
              | (Inr k, db2) \<Rightarrow> (Inr (), m1, db2, notifyServersOfNewLeader env m1)))"

text \<open>
  The loop of \<^verbatim>\<open>performBullyElection\<close> over the higher servers, with its counter
  \<^verbatim>\<open>responses\<close>. A truthy \<^verbatim>\<open>response.data.success\<close> returns from the function
  (\<open>Aborted\<close>); an answer without it and an exception both count one more and go on.
\<close>

datatype round = Aborted | Completed nat

fun election_loop ::
  "(server \<Rightarrow> election_response http_result) \<Rightarrow> int \<Rightarrow> nat \<Rightarrow> server list \<Rightarrow> round \<times> outbound list" where
  "election_loop net cid responses [] = (Completed responses, [])"
| "election_loop net cid responses (s # ss) =
     (case net s of
        Resolved response \<Rightarrow>
          if er_success response then (Aborted, [ElectionPost (s_port s) cid 2000])
          else (case election_loop net cid (responses + 1) ss of
                  (r, sent) \<Rightarrow> (r, ElectionPost (s_port s) cid 2000 # sent))
      | Rejected e \<Rightarrow>
          (case election_loop net cid (responses + 1) ss of
             (r, sent) \<Rightarrow> (r, ElectionPost (s_port s) cid 2000 # sent)))"

text \<open>
  An answer that makes the initiator stop, and the election posts a node sends to a
  list of servers.
\<close>

definition answers_alive :: "election_response http_result \<Rightarrow> bool" where
  "answers_alive a = (case a of Resolved response \<Rightarrow> er_success response | Rejected e \<Rightarrow> False)"

definition election_posts :: "manager \<Rightarrow> server list \<Rightarrow> outbound list" where
  "election_posts m ss = map (\<lambda>s. ElectionPost (s_port s) (serverId m) 2000) ss"

text \<open>
  \<^verbatim>\<open>performBullyElection\<close> returns the manager, the store and the requests sent.
  Its outer \<^verbatim>\<open>try\<close> swallows a rejection of \<^verbatim>\<open>becomeLeader\<close>.
\<close>

definition performBullyElection ::
  "election_env \<Rightarrow> manager \<Rightarrow> database \<Rightarrow> manager \<times> database \<times> outbound list" where
  "performBullyElection env m db =
     (if length (higherServers m) = 0
      then (case becomeLeader env m db of (res, m1, db1, sent) \<Rightarrow> (m1, db1, sent))
      else (case election_loop (election_net env) (serverId m) 0 (higherServers m) of
              (Aborted, sent) \<Rightarrow> (m, db, sent)
            | (Completed responses, sent) \<Rightarrow>
                if responses = length (higherServers m)
                then (case becomeLeader env m db of
                        (res, m1, db1, sent1) \<Rightarrow> (m1, db1, sent @ sent1))
                else (m, db, sent)))"

text \<open>The handler of \<^verbatim>\<open>POST /api/servers/leader-update\<close> holds the same two steps.\<close>

definition post_servers_leader_update ::
  "sql_error option \<Rightarrow> sql_error option \<Rightarrow> int \<Rightarrow> int \<Rightarrow> manager \<Rightarrow> database \<Rightarrow>
   nat \<times> manager \<times> database" where
  "post_servers_leader_update err1 err2 SERVER_ID newLeaderId m db =
     (let m1 = m\<lparr>isLeader := (newLeaderId = SERVER_ID)\<rparr>
      in case setLeader err1 err2 newLeaderId db of
           (Inl e, db1) \<Rightarrow> (500, m1, db1)
         | (Inr n, db1) \<Rightarrow> (200, m1, db1))"

subsection \<open>Replication\<close>

text \<open>
  The nodes as a dispatcher meets them, by port. Every \<^verbatim>\<open>Database\<close> opens
  \<^verbatim>\<open>./hospital.db\<close> in the working directory of its process, so which nodes write
  to one file is decided where they are started: \<open>dbfile\<close> names the file a node has
  open, and \<open>files\<close> holds the content of each file. The launchers of the repository
  start every node in one directory; all nodes then have the same file, the node that
  dispatches included.

  A node that is \<open>Down\<close> never handles a request (refused connection, or a request
  lost before the timeout). A node that is \<open>Slow\<close> handles it, writing to its file,
  but its answer comes after the 2000 ms the sender waits. A node that is \<open>Up\<close>
  handles it and answers in time; \<^verbatim>\<open>axios\<close> throws unless the status is 2xx.
  \<open>pclock\<close> is the clock a node stamps an insert with.
\<close>

datatype link = Up | Slow | Down

record peer =
  plink :: link
  dbfile :: nat
  pclock :: int

record world =
  peers :: "int \<Rightarrow> peer"
  files :: "nat \<Rightarrow> database"

text \<open>A handler run by a node on the file the node has open.\<close>

definition run_files ::
  "(int \<Rightarrow> database \<Rightarrow> nat \<times> database) \<Rightarrow> peer \<Rightarrow> (nat \<Rightarrow> database) \<Rightarrow> nat \<Rightarrow> database" where
  "run_files handler pr fs = fs(dbfile pr := snd (handler (pclock pr) (fs (dbfile pr))))"



section \<open>Inbound handlers (server.js)\<close>

subsection \<open>Election messages\<close>

text \<open>
  The handler of \<^verbatim>\<open>POST /api/servers/election\<close>. \<^verbatim>\<open>candidateId\<close> is read from
  the request body and may be absent (\<^verbatim>\<open>shutdown\<close> posts with no body);
  \<^verbatim>\<open>undefined < SERVER_ID\<close> is false. Besides the reply, the outcome records the
  timer the handler starts: \<open>Some d\<close> when it schedules
  \<^verbatim>\<open>performBullyElection\<close> after \<open>d\<close> milliseconds.
\<close>

record election_reply =
  success :: bool
  message :: string

record election_outcome =
  reply :: election_reply
  own_election_after :: "nat option"

definition post_servers_election :: "int \<Rightarrow> int option \<Rightarrow> election_outcome" where
  "post_servers_election SERVER_ID candidateId =
     (if (case candidateId of Some c \<Rightarrow> c < SERVER_ID | None \<Rightarrow> False)
      then \<lparr>reply = \<lparr>success = True, message = ''Server is alive''\<rparr>,
            own_election_after = Some 1000\<rparr>
      else \<lparr>reply = \<lparr>success = False, message = ''Server acknowledges election''\<rparr>,
            own_election_after = None\<rparr>)"

subsection \<open>Replicated writes\<close>

text \<open>
  The body of \<^verbatim>\<open>POST /api/replicate/booking\<close>; a field the sender left out is
  \<open>None\<close>. The handlers return the HTTP status they answer with and the store they
  leave. The booking handler never reads \<^verbatim>\<open>bookingTimestamp\<close>: \<^verbatim>\<open>createBooking\<close>
  stamps the row with the receiver's clock.
\<close>

record booking_data =
  bd_doctorId :: "int option"
  bd_patientName :: "string option"
  bd_slotTime :: "string option"
  bd_confirmationId :: "string option"
  bd_bookingTimestamp :: "int option"
  bd_serverId :: "int option"

definition post_replicate_booking :: "int \<Rightarrow> booking_data \<Rightarrow> database \<Rightarrow> nat \<times> database" where
  "post_replicate_booking now body db =
     (case createBooking now (bd_doctorId body) (bd_patientName body) (bd_slotTime body)
             (bd_confirmationId body) (bd_serverId body) db of
        (Inl e, db1) \<Rightarrow> (500, db1)
      | (Inr r, db1) \<Rightarrow>
          (case bookSlot (bd_doctorId body) (bd_slotTime body) db1 of
             (changed, db2) \<Rightarrow> (200, db2)))"


section \<open>The replication dispatcher and the booking endpoint\<close>











definition handled ::
  "(int \<Rightarrow> database \<Rightarrow> nat \<times> database) \<Rightarrow> world \<Rightarrow> server list \<Rightarrow> nat \<Rightarrow> database" where
  "handled handler w ss =
     foldl (\<lambda>fs s. run_files handler (peers w (s_port s)) fs) (files w) ss"

section \<open>Sample configurations\<close>

text \<open>
  A seeded store with one free slot, a booking event for that slot, the request that
  produces it, and a world as the launchers set it up, every node on one file, in which
  node 2 answers and node 3 does not.
\<close>

definition demo_db :: database where
  "demo_db =
     \<lparr>slots = [\<lparr>sl_id = 1, sl_doctor_id = 1, sl_slot_time = ''09:00'', sl_is_available = 1\<rparr>],
      bookings = [], bookings_seq = 0, servers_tbl = seeded_servers 0\<rparr>"

definition demo_event :: booking_data where
  "demo_event =
     \<lparr>bd_doctorId = Some 1, bd_patientName = Some ''Asha'', bd_slotTime = Some ''09:00'',
      bd_confirmationId = Some ''CONF1A2B3C4D'', bd_bookingTimestamp = Some 1000,
      bd_serverId = Some 1\<rparr>"



text \<open>
  Surroundings of an election: every higher node answers through its own handler;
  every node is down; every node answers without \<^verbatim>\<open>success\<close>. The store never
  fails and the notifications go through.
\<close>

definition relay :: "election_outcome \<Rightarrow> election_response http_result" where
  "relay out = Resolved \<lparr>er_success = success (reply out)\<rparr>"

definition env_of :: "(server \<Rightarrow> election_response http_result) \<Rightarrow> election_env" where
  "env_of net =
     \<lparr>election_net = net, leader_update_net = (\<lambda>s. Resolved ()), err_clear = None,
      err_mark = None, err_status = None, status_now = 7000\<rparr>"

definition handlers_net :: "int \<Rightarrow> server \<Rightarrow> election_response http_result" where
  "handlers_net cid s = relay (post_servers_election (s_id s) (Some cid))"

definition down_net :: "server \<Rightarrow> election_response http_result" where
  "down_net s = Rejected ETIMEDOUT"

definition acknowledging_net :: "server \<Rightarrow> election_response http_result" where
  "acknowledging_net s = Resolved \<lparr>er_success = False\<rparr>"

text \<open>A store whose servers table has not been seeded.\<close>

definition empty_servers_db :: database where
  "empty_servers_db = \<lparr>slots = [], bookings = [], bookings_seq = 0, servers_tbl = []\<rparr>"

text \<open>A node that has learnt a clock offset and has four requests in flight.\<close>

definition demo_peer :: manager where
  "demo_peer = (new_manager 2 5002 0)\<lparr>connections := 4, clockOffset := 37.5\<rparr>"

section \<open>Properties of the store\<close>

lemma filter_key_le_one:
  "distinct (map f xs) \<Longrightarrow> length (filter (\<lambda>x. f x = a) xs) \<le> Suc 0"
  by (induction xs) (auto simp: image_iff filter_empty_conv)

lemma leaders_after_mark:
  "filter (\<lambda>r. sv_is_leader r \<noteq> 0) (mark_leader sid (clear_leaders tbl)) =
   map (\<lambda>r. r\<lparr>sv_is_leader := 1\<rparr>) (filter (\<lambda>r. sv_id r = sid) tbl)"
  by (induction tbl) (auto simp: mark_leader_def clear_leaders_def)

lemma stored_leaders_setLeader_ok:
  "stored_leaders (snd (setLeader None None sid db)) =
   map (\<lambda>r. r\<lparr>sv_is_leader := 1\<rparr>) (filter (\<lambda>r. sv_id r = sid) (servers_tbl db))"
  by (simp add: setLeader_def stored_leaders_def leaders_after_mark)

lemma setLeader_ok_faults:
  "fst (setLeader e1 e2 sid db) = Inr n \<Longrightarrow> e1 = None \<and> e2 = None"
  by (auto simp: setLeader_def Let_def split: option.splits)

lemma leaders_after_status:
  "length (filter ((\<lambda>r. sv_is_leader r \<noteq> 0) \<circ>
       (\<lambda>r. if sv_id r = sid
            then r\<lparr>sv_connections := c, sv_is_leader := 1, sv_last_heartbeat := t,
                   sv_status := st\<rparr>
            else r))
     (mark_leader sid (clear_leaders tbl))) =
   length (filter (\<lambda>r. sv_id r = sid) tbl)"
  by (induction tbl) (auto simp: mark_leader_def clear_leaders_def)

lemma stored_leaders_cleared: "stored_leaders (snd (setLeader None (Some e) sid db)) = []"
  by (simp add: setLeader_def stored_leaders_def clear_leaders_def filter_empty_conv)

lemma becomeLeader_ok_faults:
  "fst (becomeLeader env m db) = Inr u \<Longrightarrow>
   err_clear env = None \<and> err_mark env = None \<and> err_status env = None"
  by (auto simp: becomeLeader_def setLeader_def updateServerStatus_def Let_def
      split: option.splits)

lemma stored_leaders_becomeLeader_ok:
  "err_clear env = None \<Longrightarrow> err_mark env = None \<Longrightarrow> err_status env = None \<Longrightarrow>
   length (stored_leaders (fst (snd (snd (becomeLeader env m db))))) =
   length (filter (\<lambda>r. sv_id r = serverId m) (servers_tbl db))"
  by (simp add: becomeLeader_def setLeader_def updateServerStatus_def Let_def
      stored_leaders_def leaders_after_status)

lemma leader_update_store:
  "snd (snd (post_servers_leader_update e1 e2 S sid m db)) = snd (setLeader e1 e2 sid db)"
  "(fst (post_servers_leader_update e1 e2 S sid m db) = 200) =
     (\<exists>n. fst (setLeader e1 e2 sid db) = Inr n)"
  by (auto simp: post_servers_leader_update_def Let_def split: prod.splits sum.splits)

text \<open>
  C10. Every call of \<^verbatim>\<open>setLeader\<close> that completes successfully (the promise
  resolves) leaves at most one row of the servers table with its leader flag set, and
  that row is the one with the given id: the first statement clears the flag on every
  row (a call whose second statement fails leaves no flag set), and the second sets it
  where \<^verbatim>\<open>id = serverId\<close>. The same holds of the store after the leader-update
  handler has answered 200 and after \<^verbatim>\<open>becomeLeader\<close> has resolved, both of which
  write the designation through \<^verbatim>\<open>setLeader\<close>. The ids of the table are distinct,
  \<^verbatim>\<open>id\<close> being its PRIMARY KEY.
\<close>

theorem setLeader_at_most_one_leader:
  assumes "distinct (map sv_id (servers_tbl db))"
  shows "(fst (setLeader err1 err2 sid db) = Inr n \<longrightarrow>
            length (stored_leaders (snd (setLeader err1 err2 sid db))) \<le> 1
            \<and> sv_id ` set (stored_leaders (snd (setLeader err1 err2 sid db))) \<subseteq> {sid})
       \<and> stored_leaders (snd (setLeader None (Some e) sid db)) = []
       \<and> (fst (post_servers_leader_update err1 err2 S sid m db) = 200 \<longrightarrow>
            length (stored_leaders (snd (snd (post_servers_leader_update err1 err2 S sid m db))))
              \<le> 1)
       \<and> (fst (becomeLeader env m db) = Inr () \<longrightarrow>
            length (stored_leaders (fst (snd (snd (becomeLeader env m db))))) \<le> 1)"
proof (intro conjI impI)
  have k: "length (filter (\<lambda>r. sv_id r = x) (servers_tbl db)) \<le> Suc 0" for x
    using assms by (rule filter_key_le_one)
  {
    fix k'
    assume "fst (setLeader err1 err2 sid db) = Inr k'"
    then have e: "err1 = None" "err2 = None"
      using setLeader_ok_faults by blast+
    have "length (stored_leaders (snd (setLeader err1 err2 sid db))) \<le> 1
        \<and> sv_id ` set (stored_leaders (snd (setLeader err1 err2 sid db))) \<subseteq> {sid}"
      unfolding e stored_leaders_setLeader_ok using k [of sid] by auto
  }
  note ok = this
  {
    assume "fst (setLeader err1 err2 sid db) = Inr n"
    from ok [OF this]
    show "length (stored_leaders (snd (setLeader err1 err2 sid db))) \<le> 1"
      and "sv_id ` set (stored_leaders (snd (setLeader err1 err2 sid db))) \<subseteq> {sid}"
      by blast+
  }
  show "stored_leaders (snd (setLeader None (Some e) sid db)) = []"
    by (rule stored_leaders_cleared)
  {
    assume "fst (post_servers_leader_update err1 err2 S sid m db) = 200"
    then obtain k' where "fst (setLeader err1 err2 sid db) = Inr k'"
      unfolding leader_update_store by blast
    from ok [OF this]
    show "length (stored_leaders (snd (snd (post_servers_leader_update err1 err2 S sid m db))))
        \<le> 1"
      unfolding leader_update_store by blast
  }
  {
    assume "fst (becomeLeader env m db) = Inr ()"
    then have "err_clear env = None" "err_mark env = None" "err_status env = None"
      using becomeLeader_ok_faults by blast+
    then show "length (stored_leaders (fst (snd (snd (becomeLeader env m db))))) \<le> 1"
      using stored_leaders_becomeLeader_ok [of env m db] k [of "serverId m"] by simp
  }
qed

theorem setLeader_at_most_one_leader_witness:
  "distinct (map sv_id (servers_tbl (seeded_db 0)))
   \<and> fst (setLeader None None 2 (seeded_db 0)) = Inr 1
   \<and> length (stored_leaders (snd (setLeader None None 2 (seeded_db 0)))) \<le> 1
   \<and> map sv_id (stored_leaders (snd (setLeader None None 2 (seeded_db 0)))) = [2]
   \<and> map sv_id (stored_leaders (seeded_db 0)) = [1]"
proof -
  have d: "distinct (map sv_id (servers_tbl (seeded_db 0)))"
    by (simp add: seeded_db_def seeded_servers_def)
  have r: "fst (setLeader None None 2 (seeded_db 0)) = Inr 1"
    by (simp add: setLeader_def seeded_db_def seeded_servers_def clear_leaders_def)
  have l: "map sv_id (stored_leaders (snd (setLeader None None 2 (seeded_db 0)))) = [2]"
    "map sv_id (stored_leaders (seeded_db 0)) = [1]"
    by (simp_all add: setLeader_def seeded_db_def seeded_servers_def clear_leaders_def
        mark_leader_def stored_leaders_def)
  from setLeader_at_most_one_leader [OF d, of None None 2 1] r
  have "length (stored_leaders (snd (setLeader None None 2 (seeded_db 0)))) \<le> 1"
    by blast
  with d r l show ?thesis by simp
qed

section \<open>Replicated bookings\<close>

text \<open>
  C1, as the code has it. Whatever the store and the event, the second delivery of the
  same event to the same node is answered with status 500 and leaves the store as the
  first delivery left it: either the first insert went through, and the second meets
  the UNIQUE constraint on the confirmation id, or the first insert failed on a
  constraint, and the second fails on the same one.
\<close>

theorem replicate_booking_second_delivery_rejected:
  "post_replicate_booking now2 ev (snd (post_replicate_booking now1 ev db)) =
     (500, snd (post_replicate_booking now1 ev db))"
  by (auto simp: post_replicate_booking_def createBooking_def bookSlot_def Let_def)

text \<open>
  C1, as the claim states it, fails: delivered twice to a node with the sample store,
  the sample event is accepted once (200) and refused once (500), and the store ends
  with one row under its confirmation id, not two.
\<close>

theorem replicate_booking_twice_counterexample:
  "fst (post_replicate_booking 1500 demo_event demo_db) = 200
   \<and> fst (post_replicate_booking 2000 demo_event
            (snd (post_replicate_booking 1500 demo_event demo_db))) = 500
   \<and> length (filter (\<lambda>r. bk_confirmation_id r = ''CONF1A2B3C4D'')
        (bookings (snd (post_replicate_booking 2000 demo_event
           (snd (post_replicate_booking 1500 demo_event demo_db)))))) = 1"
  by (simp add: post_replicate_booking_def createBooking_def bookSlot_def Let_def
      demo_db_def demo_event_def slot_hit_def)

section \<open>Election messages\<close>

text \<open>
  C7. A node with id \<open>self\<close> that receives an election message from candidate \<open>c\<close>
  replies "Server is alive" and starts a timer of 1000 ms for an election of its own
  when \<open>c < self\<close>; otherwise it replies "Server acknowledges election" and starts
  nothing.
\<close>

theorem post_servers_election_by_rank:
  "post_servers_election self (Some c) =
     (if c < self
      then \<lparr>reply = \<lparr>success = True, message = ''Server is alive''\<rparr>,
            own_election_after = Some 1000\<rparr>
      else \<lparr>reply = \<lparr>success = False, message = ''Server acknowledges election''\<rparr>,
            own_election_after = None\<rparr>)"
  by (simp add: post_servers_election_def)

section \<open>Clock synchronisation\<close>

lemma performClockSync_fields:
  "serverTime (performClockSync m now1 now2 T) = real_of_int now1 + clockOffset m"
  "rtt (performClockSync m now1 now2 T) = real_of_int now2 + clockOffset m - T"
  "adjustedTime (performClockSync m now1 now2 T) =
     serverTime (performClockSync m now1 now2 T) + rtt (performClockSync m now1 now2 T) / 2"
  by (simp_all add: performClockSync_def Let_def)

text \<open>
  When both readings of the responder's clock give the same instant, the \<^verbatim>\<open>rtt\<close> it
  returns is its own time minus the client's send time, and the adjusted time is the
  send time plus one and a half times that: a returned \<^verbatim>\<open>rtt\<close> of 40 comes with an
  adjusted time of \<open>T + 60\<close>.
\<close>

lemma performClockSync_same_instant:
  "rtt (performClockSync m n n T) = serverTime (performClockSync m n n T) - T"
  "adjustedTime (performClockSync m n n T) = T + 3 * rtt (performClockSync m n n T) / 2"
  by (simp_all add: performClockSync_def Let_def field_simps)

text \<open>
  C4 at a round trip of 40 ms with equal clocks and no offset: the request sent at
  \<open>T = 1000\<close> is handled at 1020. The responder returns its clock as \<^verbatim>\<open>serverTime\<close>,
  but an \<^verbatim>\<open>rtt\<close> of 20 (the time the request took to arrive, not the round trip the
  caller sees) and an adjusted time of 1030.
\<close>

theorem performClockSync_responder_rtt:
  "serverTime (performClockSync (new_manager 2 5002 0) 1020 1020 1000) = 1020
   \<and> rtt (performClockSync (new_manager 2 5002 0) 1020 1020 1000) = 20
   \<and> adjustedTime (performClockSync (new_manager 2 5002 0) 1020 1020 1000) = 1030"
  by (simp add: performClockSync_def new_manager_def Let_def)

text \<open>
  C8. Calls of \<^verbatim>\<open>performClockSync\<close> with one \<^verbatim>\<open>clientTime\<close> on one manager (so
  one offset), the clock reading \<open>n\<close> whenever \<^verbatim>\<open>serverTime\<close> is taken: the server
  times returned, in the order of the calls, never decrease.
\<close>

theorem serverTime_nondecreasing_frozen_clock:
  assumes "\<forall>r\<in>set readings. fst r = n"
  shows "sorted (map serverTime (sync_sequence m T readings))"
  using assms
  by (induction readings) (auto simp: sync_sequence_def performClockSync_fields)

theorem serverTime_nondecreasing_frozen_clock_witness:
  "map serverTime (sync_sequence demo_peer 1000 [(1020, 1020), (1020, 1021), (1020, 1020)])
     = [1057.5, 1057.5, 1057.5]
   \<and> sorted (map serverTime
        (sync_sequence demo_peer 1000 [(1020, 1020), (1020, 1021), (1020, 1020)]))"
proof -
  have h: "\<forall>r\<in>set [(1020, 1020), (1020, 1021), (1020, 1020)]. fst r = (1020::int)"
    by simp
  have v: "map serverTime
      (sync_sequence demo_peer 1000 [(1020, 1020), (1020, 1021), (1020, 1020)])
     = [1057.5, 1057.5, 1057.5]"
    by (simp add: sync_sequence_def performClockSync_fields demo_peer_def new_manager_def)
  from serverTime_nondecreasing_frozen_clock [OF h, of demo_peer 1000] v show ?thesis
    by simp
qed

text \<open>
  C9. When \<^verbatim>\<open>syncWithLeader\<close> finds no other server in the directory, or its request
  to the server it picked ends in an exception (timeout, refused connection, error
  status), the manager is afterwards what it was before: the clock offset and every
  other field.
\<close>

theorem syncWithLeader_failure_keeps_state:
  assumes "find (\<lambda>s. s_id s \<noteq> serverId m) (servers m) = None
         \<or> (\<exists>leader e. find (\<lambda>s. s_id s \<noteq> serverId m) (servers m) = Some leader
               \<and> net leader startTime = Rejected e)"
  shows "syncWithLeader net startTime endTime lastTime m = m"
  using assms by (auto simp: syncWithLeader_def)

theorem syncWithLeader_failure_keeps_state_witness:
  "syncWithLeader (\<lambda>s t. Rejected ETIMEDOUT) 1000 3000 3001 demo_peer = demo_peer
   \<and> clockOffset (syncWithLeader (\<lambda>s t. Rejected ETIMEDOUT) 1000 3000 3001 demo_peer) = 37.5
   \<and> syncWithLeader (\<lambda>s t. Resolved (performClockSync (new_manager 1 5001 0) t t (real_of_int t)))
        1000 1040 1041 (demo_peer\<lparr>servers := [\<lparr>s_id = 2, s_name = ''Server-Delhi'', s_port = 5002\<rparr>]\<rparr>)
      = demo_peer\<lparr>servers := [\<lparr>s_id = 2, s_name = ''Server-Delhi'', s_port = 5002\<rparr>]\<rparr>"
proof -
  let ?down = "\<lambda>(s::server) (t::int). (Rejected ETIMEDOUT :: sync_result http_result)"
  let ?up = "\<lambda>(s::server) t. Resolved (performClockSync (new_manager 1 5001 0) t t (real_of_int t))"
  let ?alone = "demo_peer\<lparr>servers := [\<lparr>s_id = 2, s_name = ''Server-Delhi'', s_port = 5002\<rparr>]\<rparr>"
  have a: "find (\<lambda>s. s_id s \<noteq> serverId demo_peer) (servers demo_peer) = None
         \<or> (\<exists>leader e. find (\<lambda>s. s_id s \<noteq> serverId demo_peer) (servers demo_peer) = Some leader
               \<and> ?down leader 1000 = Rejected e)"
    by (simp add: demo_peer_def new_manager_def cluster_servers_def)
  have b: "find (\<lambda>s. s_id s \<noteq> serverId ?alone) (servers ?alone) = None
         \<or> (\<exists>leader e. find (\<lambda>s. s_id s \<noteq> serverId ?alone) (servers ?alone) = Some leader
               \<and> ?up leader 1000 = Rejected e)"
    by (simp add: demo_peer_def new_manager_def)
  have c: "clockOffset demo_peer = 37.5"
    by (simp add: demo_peer_def)
  from syncWithLeader_failure_keeps_state
      [where m = demo_peer and net = ?down and startTime = 1000 and endTime = 3000
         and lastTime = 3001, OF a]
    syncWithLeader_failure_keeps_state
      [where m = ?alone and net = ?up and startTime = 1000 and endTime = 1040
         and lastTime = 1041, OF b] c
  show ?thesis by simp
qed

section \<open>Status report\<close>

text \<open>
  C5, as the code has it. The report has one entry per row of the servers table, in the
  table's order, whatever the directory lists. Every entry shows the row as the store
  holds it when the report is made: leader flag, last heartbeat and status, and for a
  node other than the reporting one the connection count. So a status write to a
  peer's row shows in the peer's entry with the connections, flag, heartbeat and status
  written, a heartbeat write with its time, and a leader designation by any node with
  the flag it leaves on that row. The entry of the reporting node carries the
  connection count and the clock offset the node holds in memory; the entry of any
  other node carries the clock offset 0, the table having no column for an offset.
\<close>

theorem getServerStatus_entries:
  "map st_id (getServerStatus m db) = map sv_id (servers_tbl db)
   \<and> (\<forall>i < length (servers_tbl db).
        st_isLeader (getServerStatus m db ! i) = (sv_is_leader (servers_tbl db ! i) = 1)
        \<and> st_lastHeartbeat (getServerStatus m db ! i) = sv_last_heartbeat (servers_tbl db ! i)
        \<and> st_status (getServerStatus m db ! i) = sv_status (servers_tbl db ! i)
        \<and> (sv_id (servers_tbl db ! i) = serverId m \<longrightarrow>
             st_connections (getServerStatus m db ! i) = connections m
             \<and> st_clockOffset (getServerStatus m db ! i) = clockOffset m)
        \<and> (sv_id (servers_tbl db ! i) \<noteq> serverId m \<longrightarrow>
             st_connections (getServerStatus m db ! i) = sv_connections (servers_tbl db ! i)
             \<and> st_clockOffset (getServerStatus m db ! i) = 0
             \<and> st_connections (getServerStatus m
                  (snd (updateServerStatus None now (sv_id (servers_tbl db ! i)) c l st db)) ! i) = c
             \<and> st_isLeader (getServerStatus m
                  (snd (updateServerStatus None now (sv_id (servers_tbl db ! i)) c l st db)) ! i) = l
             \<and> st_lastHeartbeat (getServerStatus m
                  (snd (updateServerStatus None now (sv_id (servers_tbl db ! i)) c l st db)) ! i) = now
             \<and> st_status (getServerStatus m
                  (snd (updateServerStatus None now (sv_id (servers_tbl db ! i)) c l st db)) ! i) = st
             \<and> st_lastHeartbeat (getServerStatus m
                  (snd (updateServerHeartbeat None now (sv_id (servers_tbl db ! i)) db)) ! i) = now)
        \<and> st_isLeader (getServerStatus m (snd (setLeader None None sid db)) ! i) =
            (sv_id (servers_tbl db ! i) = sid))"
  by (simp add: getServerStatus_def getAllServers_def updateServerStatus_def
      updateServerHeartbeat_def setLeader_def mark_leader_def clear_leaders_def)

theorem getServerStatus_entries_witness:
  "map st_id (getServerStatus demo_peer demo_db) = [1, 2, 3]
   \<and> st_connections (getServerStatus demo_peer demo_db ! 1) = 4
   \<and> st_clockOffset (getServerStatus demo_peer demo_db ! 1) = 37.5
   \<and> st_connections (getServerStatus demo_peer demo_db ! 0) = 0
   \<and> st_clockOffset (getServerStatus demo_peer demo_db ! 0) = 0
   \<and> st_isLeader (getServerStatus demo_peer demo_db ! 0)
   \<and> st_connections (getServerStatus demo_peer
        (snd (updateServerStatus None 9000 1 7 False ''inactive'' demo_db)) ! 0) = 7
   \<and> st_status (getServerStatus demo_peer
        (snd (updateServerStatus None 9000 1 7 False ''inactive'' demo_db)) ! 0) = ''inactive''
   \<and> st_lastHeartbeat (getServerStatus demo_peer
        (snd (updateServerHeartbeat None 9000 1 demo_db)) ! 0) = 9000
   \<and> st_isLeader (getServerStatus demo_peer (snd (setLeader None None 3 demo_db)) ! 0) = False"
proof -
  have l: "(0::nat) < length (servers_tbl demo_db)" "(1::nat) < length (servers_tbl demo_db)"
    by (simp_all add: demo_db_def seeded_servers_def)
  have r: "sv_id (servers_tbl demo_db ! 0) = 1" "sv_id (servers_tbl demo_db ! 1) = 2"
    "sv_connections (servers_tbl demo_db ! 0) = 0" "sv_is_leader (servers_tbl demo_db ! 0) = 1"
    "map sv_id (servers_tbl demo_db) = [1, 2, 3]"
    by (simp_all add: demo_db_def seeded_servers_def)
  have p: "serverId demo_peer = 2" "connections demo_peer = 4" "clockOffset demo_peer = 37.5"
    by (simp_all add: demo_peer_def new_manager_def)
  from getServerStatus_entries [of demo_peer demo_db 9000 7 False "''inactive''" 3] l r p
  show ?thesis
    by auto
qed

text \<open>
  C5, as the claim states it, fails in three places. Node 2 holds an offset of 37.5 ms
  and has just written its status to the store; the report of node 1 shows node 2 with
  a clock offset of 0. Node 2 writes its row with the leader flag set, then node 3
  designates itself leader; the report of node 1 shows node 2 as no leader, which is
  not what node 2 last wrote. And on a store whose servers table has no rows the
  report is empty, though the directory lists three nodes.
\<close>

theorem getServerStatus_snapshot_counterexample:
  "st_clockOffset
        (getServerStatus (new_manager 1 5001 0)
           (snd (updateServerStatus None 9000 (serverId demo_peer) (connections demo_peer) False
                   ''active'' demo_db)) ! 1) \<noteq> clockOffset demo_peer
   \<and> fst (updateServerStatus None 9000 2 4 True ''active'' demo_db) = Inr 1
   \<and> sv_is_leader (servers_tbl (snd (updateServerStatus None 9000 2 4 True ''active'' demo_db)) ! 1) = 1
   \<and> fst (setLeader None None 3 (snd (updateServerStatus None 9000 2 4 True ''active'' demo_db))) = Inr 1
   \<and> \<not> st_isLeader
        (getServerStatus (new_manager 1 5001 0)
           (snd (setLeader None None 3
              (snd (updateServerStatus None 9000 2 4 True ''active'' demo_db)))) ! 1)
   \<and> getServerStatus (new_manager 1 5001 0) empty_servers_db = []
   \<and> length (servers (new_manager 1 5001 0)) = 3"
  by (simp add: getServerStatus_def getAllServers_def updateServerStatus_def demo_db_def
      seeded_servers_def demo_peer_def new_manager_def setLeader_def mark_leader_def
      clear_leaders_def empty_servers_db_def cluster_servers_def)

section \<open>Leader election\<close>

lemma election_loop_abort:
  "i < length ss \<Longrightarrow> answers_alive (net (ss ! i)) \<Longrightarrow> (\<forall>j<i. \<not> answers_alive (net (ss ! j))) \<Longrightarrow>
   election_loop net cid k ss =
     (Aborted, map (\<lambda>s. ElectionPost (s_port s) cid 2000) (take (Suc i) ss))"
proof (induction ss arbitrary: i k)
  case Nil
  then show ?case by simp
next
  case (Cons s ss)
  show ?case
  proof (cases i)
    case 0
    with Cons.prems show ?thesis
      by (auto simp: answers_alive_def split: http_result.splits)
  next
    case (Suc i')
    from Cons.prems Suc have a: "i' < length ss" "answers_alive (net (ss ! i'))"
      by auto
    from Cons.prems(3) Suc have b: "\<forall>j<i'. \<not> answers_alive (net (ss ! j))"
      by (metis Suc_less_eq nth_Cons_Suc)
    from Cons.prems(3) Suc have c: "\<not> answers_alive (net s)"
      by (metis nth_Cons_0 zero_less_Suc)
    from Cons.IH [OF a b] c Suc show ?thesis
      by (auto simp: answers_alive_def split: http_result.splits)
  qed
qed

lemma election_loop_complete:
  "(\<forall>s\<in>set ss. \<not> answers_alive (net s)) \<Longrightarrow>
   election_loop net cid k ss =
     (Completed (k + length ss), map (\<lambda>s. ElectionPost (s_port s) cid 2000) ss)"
  by (induction ss arbitrary: k) (auto simp: answers_alive_def split: http_result.splits)

lemma first_alive_index:
  "\<exists>s\<in>set ss. P s \<Longrightarrow> \<exists>i<length ss. P (ss ! i) \<and> (\<forall>j<i. \<not> P (ss ! j))"
proof (induction ss)
  case Nil
  then show ?case by simp
next
  case (Cons s ss)
  show ?case
  proof (cases "P s")
    case True
    then have "0 < length (s # ss) \<and> P ((s # ss) ! 0) \<and> (\<forall>j<0. \<not> P ((s # ss) ! j))" by simp
    then show ?thesis by blast
  next
    case False
    with Cons.prems have "\<exists>s\<in>set ss. P s" by auto
    from Cons.IH [OF this] obtain i where i: "i < length ss" "P (ss ! i)" "\<forall>j<i. \<not> P (ss ! j)"
      by blast
    have "\<forall>j<Suc i. \<not> P ((s # ss) ! j)"
      using False i(3) by (auto simp: less_Suc_eq_0_disj)
    with i have "Suc i < length (s # ss) \<and> P ((s # ss) ! Suc i) \<and> (\<forall>j<Suc i. \<not> P ((s # ss) ! j))"
      by simp
    then show ?thesis by blast
  qed
qed

lemma becomeLeader_isLeader: "isLeader (fst (snd (becomeLeader env m db)))"
  by (simp add: becomeLeader_def Let_def split: prod.splits sum.splits)

lemma election_no_higher:
  "higherServers m = [] \<Longrightarrow> performBullyElection env m db = snd (becomeLeader env m db)"
  by (simp add: performBullyElection_def split: prod.splits)

lemma election_aborts:
  assumes "i < length (higherServers m)"
    and "answers_alive (election_net env (higherServers m ! i))"
    and "\<forall>j<i. \<not> answers_alive (election_net env (higherServers m ! j))"
  shows "performBullyElection env m db = (m, db, election_posts m (take (Suc i) (higherServers m)))"
proof -
  from assms(1) have "length (higherServers m) \<noteq> 0" by auto
  then show ?thesis
    using election_loop_abort [OF assms, of "serverId m" 0]
    by (simp add: performBullyElection_def election_posts_def)
qed

lemma election_completes:
  assumes "\<forall>s\<in>set (higherServers m). \<not> answers_alive (election_net env s)"
  shows "performBullyElection env m db =
     (fst (snd (becomeLeader env m db)), fst (snd (snd (becomeLeader env m db))),
      election_posts m (higherServers m) @ snd (snd (snd (becomeLeader env m db))))"
  using election_loop_complete [OF assms, of "serverId m" 0]
  by (auto simp: performBullyElection_def election_posts_def split: prod.splits)



text \<open>
  C3. An election started by a node: with no higher server in its directory the node
  runs \<^verbatim>\<open>becomeLeader\<close> at once and is Leader. Otherwise it posts an election
  message carrying its own id, with a timeout of 2000 ms, to the higher servers one
  after the other in directory order; at the first one that answers alive it stops,
  having contacted no server after it and left its role and the store as they were. When
  every higher server fails to answer, it has posted to all of them, runs
  \<^verbatim>\<open>becomeLeader\<close> and is Leader.
\<close>

theorem performBullyElection_outcomes:
  "(higherServers m = [] \<longrightarrow>
      performBullyElection env m db = snd (becomeLeader env m db)
      \<and> isLeader (fst (performBullyElection env m db)))
   \<and> (\<forall>i<length (higherServers m).
        answers_alive (election_net env (higherServers m ! i))
        \<and> (\<forall>j<i. \<not> answers_alive (election_net env (higherServers m ! j))) \<longrightarrow>
        performBullyElection env m db =
          (m, db, election_posts m (take (Suc i) (higherServers m))))
   \<and> (higherServers m \<noteq> [] \<and> (\<forall>s\<in>set (higherServers m). \<exists>e. election_net env s = Rejected e) \<longrightarrow>
        isLeader (fst (performBullyElection env m db))
        \<and> snd (snd (performBullyElection env m db)) =
            election_posts m (higherServers m) @ snd (snd (snd (becomeLeader env m db))))"
proof (intro conjI impI allI)
  assume "higherServers m = []"
  then show "performBullyElection env m db = snd (becomeLeader env m db)"
    by (rule election_no_higher)
  then show "isLeader (fst (performBullyElection env m db))"
    by (simp add: becomeLeader_isLeader)
next
  fix i
  assume "i < length (higherServers m)"
    and "answers_alive (election_net env (higherServers m ! i))
         \<and> (\<forall>j<i. \<not> answers_alive (election_net env (higherServers m ! j)))"
  then show "performBullyElection env m db =
      (m, db, election_posts m (take (Suc i) (higherServers m)))"
    using election_aborts by blast
next
  assume a: "higherServers m \<noteq> [] \<and> (\<forall>s\<in>set (higherServers m). \<exists>e. election_net env s = Rejected e)"
  then have n: "\<forall>s\<in>set (higherServers m). \<not> answers_alive (election_net env s)"
    by (auto simp: answers_alive_def)
  show "isLeader (fst (performBullyElection env m db))"
    unfolding election_completes [OF n] by (simp add: becomeLeader_isLeader)
  show "snd (snd (performBullyElection env m db)) =
      election_posts m (higherServers m) @ snd (snd (snd (becomeLeader env m db)))"
    unfolding election_completes [OF n] by simp
qed

lemma new_manager_fields:
  "serverId (new_manager sid p n) = sid" "connections (new_manager sid p n) = 0"
  "servers (new_manager sid p n) = cluster_servers" "clockOffset (new_manager sid p n) = 0"
  by (simp_all add: new_manager_def)

lemma higherServers_node1:
  "higherServers (new_manager 1 5001 0) =
     [\<lparr>s_id = 2, s_name = ''Server-Delhi'', s_port = 5002\<rparr>,
      \<lparr>s_id = 3, s_name = ''Server-Bangalore'', s_port = 5003\<rparr>]"
  by (simp add: higherServers_def new_manager_def cluster_servers_def)

lemma higherServers_node3: "higherServers (new_manager 3 5003 0) = []"
  by (simp add: higherServers_def new_manager_def cluster_servers_def)


lemma becomeLeader_sent_node1:
  "snd (snd (snd (becomeLeader (env_of net) (new_manager 1 5001 0) demo_db))) =
     [LeaderUpdatePost 5002 1 1000, LeaderUpdatePost 5003 1 1000]"
proof -
  have o: "otherServers ((new_manager 1 5001 0)\<lparr>isLeader := True\<rparr>) =
     [\<lparr>s_id = 2, s_name = ''Server-Delhi'', s_port = 5002\<rparr>,
      \<lparr>s_id = 3, s_name = ''Server-Bangalore'', s_port = 5003\<rparr>]"
    by (simp add: otherServers_def new_manager_def cluster_servers_def)
  have s: "serverId (new_manager 1 5001 0) = 1" "connections (new_manager 1 5001 0) = 0"
    by (simp_all add: new_manager_def)
  show ?thesis
    by (simp add: becomeLeader_def Let_def env_of_def setLeader_def updateServerStatus_def
        notifyServersOfNewLeader_def o s)
qed

theorem performBullyElection_outcomes_witness:
  "isLeader (fst (performBullyElection (env_of down_net) (new_manager 3 5003 0) demo_db))
   \<and> performBullyElection (env_of (handlers_net 1)) (new_manager 1 5001 0) demo_db =
       (new_manager 1 5001 0, demo_db, [ElectionPost 5002 1 2000])
   \<and> isLeader (fst (performBullyElection (env_of down_net) (new_manager 1 5001 0) demo_db))
   \<and> snd (snd (performBullyElection (env_of down_net) (new_manager 1 5001 0) demo_db)) =
       [ElectionPost 5002 1 2000, ElectionPost 5003 1 2000,
        LeaderUpdatePost 5002 1 1000, LeaderUpdatePost 5003 1 1000]"
proof -
  let ?m1 = "new_manager 1 5001 0"
  have a: "isLeader (fst (performBullyElection (env_of down_net) (new_manager 3 5003 0) demo_db))"
    using performBullyElection_outcomes [of "new_manager 3 5003 0" "env_of down_net" demo_db]
      higherServers_node3 by blast
  have i0: "(0::nat) < length (higherServers ?m1)"
    by (simp add: higherServers_node1)
  have al: "answers_alive (election_net (env_of (handlers_net 1)) (higherServers ?m1 ! 0))
      \<and> (\<forall>j<(0::nat). \<not> answers_alive (election_net (env_of (handlers_net 1)) (higherServers ?m1 ! j)))"
    by (simp add: higherServers_node1 env_of_def handlers_net_def relay_def
        post_servers_election_def answers_alive_def)
  have "performBullyElection (env_of (handlers_net 1)) ?m1 demo_db =
       (?m1, demo_db, election_posts ?m1 (take (Suc 0) (higherServers ?m1)))"
    using performBullyElection_outcomes [of ?m1 "env_of (handlers_net 1)" demo_db] i0 al
    by blast
  then have b: "performBullyElection (env_of (handlers_net 1)) ?m1 demo_db =
       (?m1, demo_db, [ElectionPost 5002 1 2000])"
    by (simp add: higherServers_node1 election_posts_def new_manager_fields)
  have dn: "higherServers ?m1 \<noteq> []
      \<and> (\<forall>s\<in>set (higherServers ?m1). \<exists>e. election_net (env_of down_net) s = Rejected e)"
    by (simp add: higherServers_node1 env_of_def down_net_def)
  have "isLeader (fst (performBullyElection (env_of down_net) ?m1 demo_db))
     \<and> snd (snd (performBullyElection (env_of down_net) ?m1 demo_db)) =
         election_posts ?m1 (higherServers ?m1)
           @ snd (snd (snd (becomeLeader (env_of down_net) ?m1 demo_db)))"
    using performBullyElection_outcomes [of ?m1 "env_of down_net" demo_db] dn
    by blast
  then have c: "isLeader (fst (performBullyElection (env_of down_net) ?m1 demo_db))
     \<and> snd (snd (performBullyElection (env_of down_net) ?m1 demo_db)) =
       [ElectionPost 5002 1 2000, ElectionPost 5003 1 2000,
        LeaderUpdatePost 5002 1 1000, LeaderUpdatePost 5003 1 1000]"
    by (simp add: higherServers_node1 election_posts_def becomeLeader_sent_node1
        new_manager_fields)
  from a b c show ?thesis by simp
qed

lemma election_loop_cong:
  "(\<forall>s\<in>set ss. answers_alive (net s) = answers_alive (net' s)) \<Longrightarrow>
   election_loop net cid k ss = election_loop net' cid k ss"
proof (induction ss arbitrary: k)
  case Nil
  show ?case by simp
next
  case (Cons s ss)
  then have a: "answers_alive (net s) = answers_alive (net' s)"
    and r: "election_loop net cid (Suc k) ss = election_loop net' cid (Suc k) ss"
    by auto
  from a show ?case
    by (cases "net s"; cases "net' s") (auto simp: answers_alive_def r)
qed

lemma becomeLeader_net: "becomeLeader (env\<lparr>election_net := net'\<rparr>) m db = becomeLeader env m db"
  by (simp add: becomeLeader_def notifyServersOfNewLeader_def Let_def
      split: prod.splits sum.splits)

lemma election_net_cong:
  assumes "\<forall>s\<in>set (higherServers m). answers_alive (election_net env s) = answers_alive (net' s)"
  shows "performBullyElection (env\<lparr>election_net := net'\<rparr>) m db = performBullyElection env m db"
  using election_loop_cong [OF assms, of "serverId m" 0]
  by (simp add: performBullyElection_def becomeLeader_net split: prod.splits round.splits)

text \<open>
  C2, as the code has it. The reply to an election message carries success = true
  exactly when the message names a candidate below the responding node, which is
  exactly when the node starts the timer for an election of its own; relayed to the
  initiator, such a reply is what makes it stop. An initiator that gets success = true
  from a higher server ends its election at the first server that answers so, having
  changed neither its role nor the store and having posted to no server after that one.
  An answer with success = false does not stop it: when no higher server answers
  success = true, the initiator posts to every one of them and makes itself Leader; and
  the whole election is the same whether a server answers success = false or does not
  answer at all.
\<close>

theorem election_success_marks_contender:
  "success (reply (post_servers_election self candidateId)) =
     (case candidateId of Some c \<Rightarrow> c < self | None \<Rightarrow> False)
   \<and> (own_election_after (post_servers_election self candidateId) = Some 1000) =
       success (reply (post_servers_election self candidateId))
   \<and> answers_alive (relay (post_servers_election self candidateId)) =
       success (reply (post_servers_election self candidateId))
   \<and> ((\<exists>s\<in>set (higherServers m). answers_alive (election_net env s)) \<longrightarrow>
        fst (performBullyElection env m db) = m
        \<and> fst (snd (performBullyElection env m db)) = db
        \<and> (\<exists>i<length (higherServers m).
              answers_alive (election_net env (higherServers m ! i))
              \<and> (\<forall>j<i. \<not> answers_alive (election_net env (higherServers m ! j)))
              \<and> snd (snd (performBullyElection env m db)) =
                  election_posts m (take (Suc i) (higherServers m))))
   \<and> ((\<forall>s\<in>set (higherServers m). \<not> answers_alive (election_net env s)) \<longrightarrow>
        performBullyElection env m db =
          (fst (snd (becomeLeader env m db)), fst (snd (snd (becomeLeader env m db))),
           election_posts m (higherServers m) @ snd (snd (snd (becomeLeader env m db))))
        \<and> isLeader (fst (performBullyElection env m db)))
   \<and> ((\<forall>s\<in>set (higherServers m).
          answers_alive (election_net env s) = answers_alive (net' s)) \<longrightarrow>
        performBullyElection (env\<lparr>election_net := net'\<rparr>) m db = performBullyElection env m db)"
proof (intro conjI impI)
  show "success (reply (post_servers_election self candidateId)) =
     (case candidateId of Some c \<Rightarrow> c < self | None \<Rightarrow> False)"
    by (simp add: post_servers_election_def)
  show "(own_election_after (post_servers_election self candidateId) = Some 1000) =
       success (reply (post_servers_election self candidateId))"
    by (simp add: post_servers_election_def)
  show "answers_alive (relay (post_servers_election self candidateId)) =
       success (reply (post_servers_election self candidateId))"
    by (simp add: answers_alive_def relay_def)
next
  assume "\<exists>s\<in>set (higherServers m). answers_alive (election_net env s)"
  then obtain i where i: "i < length (higherServers m)"
      "answers_alive (election_net env (higherServers m ! i))"
      "\<forall>j<i. \<not> answers_alive (election_net env (higherServers m ! j))"
    using first_alive_index [of "higherServers m" "\<lambda>s. answers_alive (election_net env s)"]
    by blast
  note r = election_aborts [OF i, of db]
  show "fst (performBullyElection env m db) = m" by (simp add: r)
  show "fst (snd (performBullyElection env m db)) = db" by (simp add: r)
  show "\<exists>i<length (higherServers m).
      answers_alive (election_net env (higherServers m ! i))
      \<and> (\<forall>j<i. \<not> answers_alive (election_net env (higherServers m ! j)))
      \<and> snd (snd (performBullyElection env m db)) =
        election_posts m (take (Suc i) (higherServers m))"
    using i r by auto
next
  assume n: "\<forall>s\<in>set (higherServers m). \<not> answers_alive (election_net env s)"
  show "performBullyElection env m db =
          (fst (snd (becomeLeader env m db)), fst (snd (snd (becomeLeader env m db))),
           election_posts m (higherServers m) @ snd (snd (snd (becomeLeader env m db))))"
    by (rule election_completes [OF n])
  show "isLeader (fst (performBullyElection env m db))"
    unfolding election_completes [OF n] by (simp add: becomeLeader_isLeader)
next
  assume "\<forall>s\<in>set (higherServers m).
          answers_alive (election_net env s) = answers_alive (net' s)"
  then show "performBullyElection (env\<lparr>election_net := net'\<rparr>) m db = performBullyElection env m db"
    by (rule election_net_cong)
qed

theorem election_success_marks_contender_witness:
  "success (reply (post_servers_election 2 (Some 1)))
   \<and> own_election_after (post_servers_election 2 (Some 1)) = Some 1000
   \<and> fst (performBullyElection (env_of (handlers_net 1)) (new_manager 1 5001 0) demo_db) =
       new_manager 1 5001 0
   \<and> fst (snd (performBullyElection (env_of (handlers_net 1)) (new_manager 1 5001 0) demo_db)) =
       demo_db
   \<and> isLeader (fst (performBullyElection (env_of acknowledging_net) (new_manager 1 5001 0) demo_db))
   \<and> snd (snd (performBullyElection (env_of acknowledging_net) (new_manager 1 5001 0) demo_db)) =
       [ElectionPost 5002 1 2000, ElectionPost 5003 1 2000,
        LeaderUpdatePost 5002 1 1000, LeaderUpdatePost 5003 1 1000]
   \<and> performBullyElection (env_of acknowledging_net) (new_manager 1 5001 0) demo_db =
       performBullyElection (env_of down_net) (new_manager 1 5001 0) demo_db"
proof -
  let ?m1 = "new_manager 1 5001 0"
  have h: "\<exists>s\<in>set (higherServers ?m1). answers_alive (election_net (env_of (handlers_net 1)) s)"
    by (simp add: higherServers_node1 env_of_def handlers_net_def relay_def
        post_servers_election_def answers_alive_def)
  from election_success_marks_contender
      [of 2 "Some 1" ?m1 "env_of (handlers_net 1)" demo_db] h
  have a: "success (reply (post_servers_election 2 (Some 1))) =
        (case Some (1::int) of Some c \<Rightarrow> c < 2 | None \<Rightarrow> False)
    \<and> (own_election_after (post_servers_election 2 (Some 1)) = Some 1000) =
       success (reply (post_servers_election 2 (Some 1)))
    \<and> fst (performBullyElection (env_of (handlers_net 1)) ?m1 demo_db) = ?m1
    \<and> fst (snd (performBullyElection (env_of (handlers_net 1)) ?m1 demo_db)) = demo_db"
    by blast
  have n: "\<forall>s\<in>set (higherServers ?m1). \<not> answers_alive (election_net (env_of acknowledging_net) s)"
    by (simp add: higherServers_node1 env_of_def acknowledging_net_def answers_alive_def)
  from election_success_marks_contender
      [of 2 "Some 1" ?m1 "env_of acknowledging_net" demo_db] n
  have E: "performBullyElection (env_of acknowledging_net) ?m1 demo_db =
          (fst (snd (becomeLeader (env_of acknowledging_net) ?m1 demo_db)),
           fst (snd (snd (becomeLeader (env_of acknowledging_net) ?m1 demo_db))),
           election_posts ?m1 (higherServers ?m1)
             @ snd (snd (snd (becomeLeader (env_of acknowledging_net) ?m1 demo_db))))"
    and b1: "isLeader (fst (performBullyElection (env_of acknowledging_net) ?m1 demo_db))"
    by blast+
  have b2: "snd (snd (performBullyElection (env_of acknowledging_net) ?m1 demo_db)) =
       [ElectionPost 5002 1 2000, ElectionPost 5003 1 2000,
        LeaderUpdatePost 5002 1 1000, LeaderUpdatePost 5003 1 1000]"
    unfolding E
    by (simp add: higherServers_node1 election_posts_def becomeLeader_sent_node1
        new_manager_fields)
  note b = b1 b2
  have e: "(env_of down_net)\<lparr>election_net := acknowledging_net\<rparr> = env_of acknowledging_net"
    by (simp add: env_of_def)
  have q: "\<forall>s\<in>set (higherServers ?m1).
      answers_alive (election_net (env_of down_net) s) = answers_alive (acknowledging_net s)"
    by (simp add: higherServers_node1 env_of_def acknowledging_net_def down_net_def
        answers_alive_def)
  from election_success_marks_contender
      [of 2 "Some 1" ?m1 "env_of down_net" demo_db acknowledging_net] q
  have "performBullyElection ((env_of down_net)\<lparr>election_net := acknowledging_net\<rparr>) ?m1 demo_db
      = performBullyElection (env_of down_net) ?m1 demo_db"
    by blast
  then have c: "performBullyElection (env_of acknowledging_net) ?m1 demo_db =
       performBullyElection (env_of down_net) ?m1 demo_db"
    by (simp add: e)
  from a b c show ?thesis by simp
qed

text \<open>
  C2, as the claim states it, fails. Node 2, asked by candidate 1, outranks the
  candidate and starts its own election, and its reply carries success = true, not
  false. And node 1, answered success = false by both higher nodes, does not stop: it
  makes itself Leader.
\<close>

theorem election_success_polarity_counterexample:
  "success (reply (post_servers_election 2 (Some 1)))
   \<and> own_election_after (post_servers_election 2 (Some 1)) = Some 1000
   \<and> isLeader (fst (performBullyElection (env_of acknowledging_net) (new_manager 1 5001 0) demo_db))"
proof -
  have n: "\<forall>s\<in>set (higherServers (new_manager 1 5001 0)).
      \<not> answers_alive (election_net (env_of acknowledging_net) s)"
    by (simp add: higherServers_node1 env_of_def acknowledging_net_def answers_alive_def)
  show ?thesis
    unfolding election_completes [OF n]
    by (simp add: post_servers_election_def becomeLeader_isLeader)
qed

section \<open>Replication\<close>




lemma handled_peers: "peers w1 = peers w \<Longrightarrow> handled h w1 ss = foldl (\<lambda>fs s. run_files h (peers w (s_port s)) fs) (files w1) ss"
  by (simp add: handled_def)





























end
